theory Spec2Isabelle
  imports Main
begin

section \<open>Python values, exceptions and collaborators\<close>

text \<open>
  The module \<^verbatim>\<open>tweepy/api.py\<close> defines the class \<^verbatim>\<open>API\<close>. Most of its attributes are
  produced by \<^verbatim>\<open>bind_api(**config)\<close>, imported from another module; a handful of
  methods are written out by hand and wrap such a bound call. The hand-written methods and
  the static method \<^verbatim>\<open>_pack_image\<close> are embedded below. A Python exception is a value of
  type \<open>exn\<close>, and a call that may raise returns \<open>exn + 'a\<close> with \<open>Inl\<close> for the exception.
\<close>

datatype exn =
    TweepError string
  | OSError
  | IOError
  | AttributeError string
  | OtherError string

datatype pyval =
    PNone
  | PBool bool
  | PInt int
  | PStr string
  | PList "pyval list"
  | PDict "(string \<times> pyval) list"

type_synonym kwargs = "(string \<times> pyval) list"

text \<open>
  The file system as \<^verbatim>\<open>_pack_image\<close> sees it: \<^verbatim>\<open>os.path.getsize\<close> gives the size in
  bytes or raises \<^verbatim>\<open>os.error\<close> (\<open>None\<close>); opening the file for reading and reading it
  gives its bytes, or \<^verbatim>\<open>open\<close> raises \<^verbatim>\<open>IOError\<close> (\<open>None\<close>). The two answers are
  independent: a file may have a size and still be unreadable.
\<close>

record filesystem =
  getsize :: "string \<Rightarrow> int option"
  read_file :: "string \<Rightarrow> string option"

text \<open>The file-system operations a call performs, in the order it performs them.\<close>

datatype fs_op = Getsize string | Open string | Read string | Close string

text \<open>
  \<^verbatim>\<open>mimetypes.guess_type(name)\<close> is a library function. Its table is a parameter
  \<open>types\<close> that maps a file name to the pair (type, encoding), each component possibly
  \<^verbatim>\<open>None\<close>. The library always returns such a pair, never \<^verbatim>\<open>None\<close> itself; the value the
  Python variable holds is therefore \<open>Some\<close> of the pair.
\<close>

type_synonym mimetypes = "string \<Rightarrow> string option \<times> string option"

definition guess_type :: "mimetypes \<Rightarrow> string \<Rightarrow> (string option \<times> string option) option" where
  "guess_type types filename = Some (types filename)"

text \<open>\<^verbatim>\<open>'%s' % v\<close> for a value that is a string or \<^verbatim>\<open>None\<close>.\<close>

fun fmt_s :: "string option \<Rightarrow> string" where
  "fmt_s None = ''None''"
| "fmt_s (Some s) = s"

text \<open>\<^verbatim>\<open>sep.join(xs)\<close>.\<close>

fun join :: "string \<Rightarrow> string list \<Rightarrow> string" where
  "join sep [] = []"
| "join sep [x] = x"
| "join sep (x # y # ys) = x @ sep @ join sep (y # ys)"

definition CRLF :: string where
  "CRLF = [CHR 0x0D, CHR 0x0A]"

definition dquote :: string where
  "dquote = [CHR 0x22]"

definition BOUNDARY :: string where
  "BOUNDARY = ''Tw3ePy''"

section \<open>The multipart packer\<close>

text \<open>
  \<^verbatim>\<open>API._pack_image(filename, max_size)\<close>. The result pairs the file-system operations
  performed with the outcome: the exception raised, or the tuple \<^verbatim>\<open>(headers, body)\<close>.
  The \<^verbatim>\<open>raise TweepError\<close> inside the \<^verbatim>\<open>try\<close> is not an \<^verbatim>\<open>os.error\<close>, so the handler
  lets it through.
\<close>

definition pack_image ::
  "filesystem \<Rightarrow> mimetypes \<Rightarrow> string \<Rightarrow> int \<Rightarrow> fs_op list \<times> (exn + (kwargs \<times> string))" where
  "pack_image fs types filename max_size =
    (case getsize fs filename of
       None \<Rightarrow> ([Getsize filename], Inl (TweepError ''Unable to access file''))
     | Some sz \<Rightarrow>
        if sz > max_size * 1024
        then ([Getsize filename], Inl (TweepError ''File is too big, must be less than 700kb.''))
        else
          (case guess_type types filename of
             None \<Rightarrow> ([Getsize filename], Inl (TweepError ''Could not determine file type''))
           | Some guessed \<Rightarrow>
              let file_type = fst guessed in
              if file_type \<notin> set [Some ''image/gif'', Some ''image/jpeg'', Some ''image/png'']
              then ([Getsize filename],
                    Inl (TweepError (''Invalid file type for image: '' @ fmt_s file_type)))
              else
                (case read_file fs filename of
                   None \<Rightarrow> ([Getsize filename, Open filename], Inl IOError)
                 | Some content \<Rightarrow>
                    let body = join CRLF
                          [''--'' @ BOUNDARY,
                           ''Content-Disposition: form-data; name='' @ dquote @ ''image'' @ dquote
                             @ ''; filename='' @ dquote @ filename @ dquote,
                           ''Content-Type: '' @ fmt_s file_type,
                           '''',
                           content,
                           ''--'' @ BOUNDARY @ ''--'',
                           ''''];
                        headers =
                          [(''Content-Type'', PStr ''multipart/form-data; boundary=Tw3ePy''),
                           (''Content-Length'', PInt (int (length body)))]
                    in ([Getsize filename, Open filename, Read filename, Close filename],
                        Inr (headers, body)))))"

text \<open>Concrete inputs used to run the packer.\<close>

definition example_types :: mimetypes where
  "example_types name =
    (if name = ''avatar.png'' then (Some ''image/png'', None)
     else if name = ''notes.txt'' then (Some ''text/plain'', None)
     else (None, None))"

definition example_fs :: "int \<Rightarrow> filesystem" where
  "example_fs sz =
    \<lparr>getsize = (\<lambda>name. if name = ''missing.png'' then None else Some sz),
     read_file = (\<lambda>name. if name = ''missing.png'' then None else Some ''PNGDATA'')\<rparr>"

section \<open>The API object and its hand-written methods\<close>

text \<open>
  The auth collaborator: \<^verbatim>\<open>get_username()\<close> returns the authenticated user's screen name
  or raises. The \<^verbatim>\<open>API\<close> object stores its constructor arguments; \<^verbatim>\<open>cache\<close> and
  \<^verbatim>\<open>parser\<close> are opaque collaborators that no method below reads, and are left out.
\<close>

record auth_handler =
  get_username :: "exn + string"

record api =
  auth :: "auth_handler option"
  host :: string
  search_host :: string
  api_root :: string
  search_root :: string
  secure :: bool
  retry_count :: int
  retry_delay :: int
  retry_errors :: "int list option"

text \<open>\<^verbatim>\<open>API()\<close>: every constructor argument at its default.\<close>

definition default_API :: api where
  "default_API =
    \<lparr>auth = None, host = ''api.twitter.com'', search_host = ''search.twitter.com'',
     api_root = ''/1'', search_root = [], secure = False,
     retry_count = 0, retry_delay = 0, retry_errors = None\<rparr>"

text \<open>
  \<^verbatim>\<open>bind_api(**config)(self, *args, **kargs)\<close>: the bound callable is a parameter. It receives the
  configuration keywords, the API object, the positional and the keyword arguments, and
  returns the parsed result or raises.
\<close>

type_synonym bind_fn = "kwargs \<Rightarrow> api \<Rightarrow> pyval list \<Rightarrow> kwargs \<Rightarrow> exn + pyval"

text \<open>\<^verbatim>\<open>self.auth.get_username()\<close>; with no auth handler the attribute access raises.\<close>

definition auth_get_username :: "api \<Rightarrow> exn + string" where
  "auth_get_username self =
    (case auth self of
       None \<Rightarrow> Inl (AttributeError ''get_username'')
     | Some a \<Rightarrow> get_username a)"

subsection \<open>users/show, users/lookup, me\<close>




text \<open>An identifier in a batch lookup: a numeric id or a screen name.\<close>

datatype ident = IdInt int | IdStr string

definition digit_char :: "nat \<Rightarrow> char" where
  "digit_char d = ''0123456789'' ! d"

function str_nat :: "nat \<Rightarrow> string" where
  "str_nat n = (if n < 10 then [digit_char n] else str_nat (n div 10) @ [digit_char (n mod 10)])"
  by pat_completeness auto
termination
  by (relation "measure id") auto

declare str_nat.simps [simp del]

text \<open>\<^verbatim>\<open>str(i)\<close> for an integer, and for an identifier.\<close>

definition str_int :: "int \<Rightarrow> string" where
  "str_int i = (if i < 0 then ''-'' @ str_nat (nat (- i)) else str_nat (nat i))"

fun str_ident :: "ident \<Rightarrow> string" where
  "str_ident (IdInt i) = str_int i"
| "str_ident (IdStr s) = s"

text \<open>
  Modelled from the spec: \<^verbatim>\<open>list_to_csv\<close> of \<^verbatim>\<open>tweepy/utils.py\<close> is not among the sources.
  The spec has the caller pre-join a sequence-valued parameter "into a single
  comma-separated value"; a parameter that was not given (\<^verbatim>\<open>None\<close>) stays \<^verbatim>\<open>None\<close>.
\<close>

fun list_to_csv :: "ident list option \<Rightarrow> pyval" where
  "list_to_csv None = PNone"
| "list_to_csv (Some item_list) = PStr (join '','' (map str_ident item_list))"

definition lookup_users_config :: kwargs where
  "lookup_users_config =
    [(''path'', PStr ''/users/lookup.json''),
     (''payload_type'', PStr ''user''), (''payload_list'', PBool True),
     (''allowed_param'', PList [PStr ''user_id'', PStr ''screen_name'']),
     (''require_auth'', PBool True)]"

definition lookup_users ::
  "bind_fn \<Rightarrow> api \<Rightarrow> ident list option \<Rightarrow> ident list option \<Rightarrow> exn + pyval" where
  "lookup_users bind_api self user_ids screen_names =
    bind_api lookup_users_config self [list_to_csv user_ids, list_to_csv screen_names] []"

text \<open>A value is sequence-valued when it is a Python list.\<close>

fun is_sequence :: "pyval \<Rightarrow> bool" where
  "is_sequence (PList xs) = True"
| "is_sequence v = False"

subsection \<open>Probes: methods that catch \<^verbatim>\<open>TweepError\<close>\<close>

definition verify_credentials_config :: kwargs where
  "verify_credentials_config =
    [(''path'', PStr ''/account/verify_credentials.json''),
     (''payload_type'', PStr ''user''),
     (''require_auth'', PBool True)]"

definition verify_credentials :: "bind_fn \<Rightarrow> api \<Rightarrow> exn + pyval" where
  "verify_credentials bind_api self =
    (case bind_api verify_credentials_config self [] [] of
       Inl (TweepError reason) \<Rightarrow> Inr (PBool False)
     | Inl e \<Rightarrow> Inl e
     | Inr result \<Rightarrow> Inr result)"



definition test_config :: kwargs where
  "test_config = [(''path'', PStr ''/help/test.json'')]"

definition test :: "bind_fn \<Rightarrow> api \<Rightarrow> exn + pyval" where
  "test bind_api self =
    (case bind_api test_config self [] [] of
       Inl (TweepError reason) \<Rightarrow> Inr (PBool False)
     | Inl e \<Rightarrow> Inl e
     | Inr result \<Rightarrow> Inr (PBool True))"





subsection \<open>Image uploads\<close>

definition update_profile_image_config :: kwargs where
  "update_profile_image_config =
    [(''path'', PStr ''/account/update_profile_image.json''),
     (''method'', PStr ''POST''),
     (''payload_type'', PStr ''user''),
     (''require_auth'', PBool True)]"

definition update_profile_image ::
  "filesystem \<Rightarrow> mimetypes \<Rightarrow> bind_fn \<Rightarrow> api \<Rightarrow> string \<Rightarrow> fs_op list \<times> (exn + pyval)" where
  "update_profile_image fs types bind_api self filename =
    (case pack_image fs types filename 700 of
       (ops, Inl e) \<Rightarrow> (ops, Inl e)
     | (ops, Inr (headers, post_data)) \<Rightarrow>
         (ops, bind_api update_profile_image_config self []
                 [(''post_data'', PStr post_data), (''headers'', PDict headers)]))"

definition update_profile_background_image_config :: kwargs where
  "update_profile_background_image_config =
    [(''path'', PStr ''/account/update_profile_background_image.json''),
     (''method'', PStr ''POST''),
     (''payload_type'', PStr ''user''),
     (''allowed_param'', PList [PStr ''tile'']),
     (''require_auth'', PBool True)]"

text \<open>
  The method accepts \<^verbatim>\<open>*args, **kargs\<close> and does not pass them on; it has no
  \<^verbatim>\<open>return\<close> statement, so a call that raises nothing yields \<^verbatim>\<open>None\<close>.
\<close>

definition update_profile_background_image ::
  "filesystem \<Rightarrow> mimetypes \<Rightarrow> bind_fn \<Rightarrow> api \<Rightarrow> string \<Rightarrow> pyval list \<Rightarrow> kwargs
     \<Rightarrow> fs_op list \<times> (exn + pyval)" where
  "update_profile_background_image fs types bind_api self filename args kargs =
    (case pack_image fs types filename 800 of
       (ops, Inl e) \<Rightarrow> (ops, Inl e)
     | (ops, Inr (headers, post_data)) \<Rightarrow>
         (case bind_api update_profile_background_image_config self []
                 [(''post_data'', PStr post_data), (''headers'', PDict headers)] of
            Inl e \<Rightarrow> (ops, Inl e)
          | Inr result \<Rightarrow> (ops, Inr PNone)))"

subsection \<open>List methods that take the owner from the auth handler\<close>

definition create_list_config :: "string \<Rightarrow> kwargs" where
  "create_list_config username =
    [(''path'', PStr (''/'' @ username @ ''/lists.json'')),
     (''method'', PStr ''POST''),
     (''payload_type'', PStr ''list''),
     (''allowed_param'', PList [PStr ''name'', PStr ''mode'', PStr ''description'']),
     (''require_auth'', PBool True)]"

definition create_list :: "bind_fn \<Rightarrow> api \<Rightarrow> pyval list \<Rightarrow> kwargs \<Rightarrow> exn + pyval" where
  "create_list bind_api self args kargs =
    (case auth_get_username self of
       Inl e \<Rightarrow> Inl e
     | Inr username \<Rightarrow> bind_api (create_list_config username) self args kargs)"

definition destroy_list_config :: "string \<Rightarrow> string \<Rightarrow> kwargs" where
  "destroy_list_config username slug =
    [(''path'', PStr (''/'' @ username @ ''/lists/'' @ slug @ ''.json'')),
     (''method'', PStr ''DELETE''),
     (''payload_type'', PStr ''list''),
     (''require_auth'', PBool True)]"

definition destroy_list :: "bind_fn \<Rightarrow> api \<Rightarrow> string \<Rightarrow> exn + pyval" where
  "destroy_list bind_api self slug =
    (case auth_get_username self of
       Inl e \<Rightarrow> Inl e
     | Inr username \<Rightarrow> bind_api (destroy_list_config username slug) self [] [])"

definition update_list_config :: "string \<Rightarrow> string \<Rightarrow> kwargs" where
  "update_list_config username slug =
    [(''path'', PStr (''/'' @ username @ ''/lists/'' @ slug @ ''.json'')),
     (''method'', PStr ''POST''),
     (''payload_type'', PStr ''list''),
     (''allowed_param'', PList [PStr ''name'', PStr ''mode'', PStr ''description'']),
     (''require_auth'', PBool True)]"

definition update_list :: "bind_fn \<Rightarrow> api \<Rightarrow> string \<Rightarrow> pyval list \<Rightarrow> kwargs \<Rightarrow> exn + pyval" where
  "update_list bind_api self slug args kargs =
    (case auth_get_username self of
       Inl e \<Rightarrow> Inl e
     | Inr username \<Rightarrow> bind_api (update_list_config username slug) self args kargs)"

definition add_list_member_config :: "string \<Rightarrow> string \<Rightarrow> kwargs" where
  "add_list_member_config username slug =
    [(''path'', PStr (''/'' @ username @ ''/'' @ slug @ ''/members.json'')),
     (''method'', PStr ''POST''),
     (''payload_type'', PStr ''list''),
     (''allowed_param'', PList [PStr ''id'']),
     (''require_auth'', PBool True)]"

definition add_list_member ::
  "bind_fn \<Rightarrow> api \<Rightarrow> string \<Rightarrow> pyval list \<Rightarrow> kwargs \<Rightarrow> exn + pyval" where
  "add_list_member bind_api self slug args kargs =
    (case auth_get_username self of
       Inl e \<Rightarrow> Inl e
     | Inr username \<Rightarrow> bind_api (add_list_member_config username slug) self args kargs)"

definition remove_list_member_config :: "string \<Rightarrow> string \<Rightarrow> kwargs" where
  "remove_list_member_config username slug =
    [(''path'', PStr (''/'' @ username @ ''/'' @ slug @ ''/members.json'')),
     (''method'', PStr ''DELETE''),
     (''payload_type'', PStr ''list''),
     (''allowed_param'', PList [PStr ''id'']),
     (''require_auth'', PBool True)]"

definition remove_list_member ::
  "bind_fn \<Rightarrow> api \<Rightarrow> string \<Rightarrow> pyval list \<Rightarrow> kwargs \<Rightarrow> exn + pyval" where
  "remove_list_member bind_api self slug args kargs =
    (case auth_get_username self of
       Inl e \<Rightarrow> Inl e
     | Inr username \<Rightarrow> bind_api (remove_list_member_config username slug) self args kargs)"

text \<open>The path keyword of a configuration.\<close>

definition config_path :: "kwargs \<Rightarrow> pyval option" where
  "config_path config = map_of config ''path''"

text \<open>Bound callables and an API object used to run the methods.\<close>

definition echo_call :: bind_fn where
  "echo_call config self args kargs =
    Inr (PDict [(''config'', PDict config), (''args'', PList args), (''kargs'', PDict kargs)])"


definition returning_call :: "pyval \<Rightarrow> bind_fn" where
  "returning_call result config self args kargs = Inr result"

text \<open>A bound callable that answers with the path it was configured with.\<close>

definition path_call :: bind_fn where
  "path_call config self args kargs =
    (case config_path config of
       None \<Rightarrow> Inl (OtherError ''no path'')
     | Some p \<Rightarrow> Inr p)"

definition example_api :: api where
  "example_api = default_API\<lparr>auth := Some \<lparr>get_username = Inr ''alice''\<rparr>\<rparr>"

text \<open>Every value a bound call receives, positional and keyword.\<close>

definition call_values :: "pyval list \<Rightarrow> kwargs \<Rightarrow> pyval list" where
  "call_values args kargs = args @ map snd kargs"

section \<open>The HTTP executor\<close>

text \<open>
  Modelled from the spec: the retry loop that sends the request is part of \<^verbatim>\<open>bind_api\<close> and
  is not among the sources; \<^verbatim>\<open>API.__init__\<close> only stores \<^verbatim>\<open>retry_count\<close>, \<^verbatim>\<open>retry_delay\<close>
  and \<^verbatim>\<open>retry_errors\<close>. The spec (4.5): "attempt the request. If the transport reports a
  network-level transient failure, or the response status is in retryErrors, and
  attempts-so-far \<open>\<le>\<close> retryCount, wait retryDelay and retry. Otherwise, if status is non-2xx,
  fail with HTTPStatusError{status, body}; if network failure persists past the budget, fail
  with NetworkError. On 2xx, transition to Success."

  The transport is the function \<open>send\<close>: \<open>send k\<close> is what the transport answers to the
  attempt after \<open>k\<close> earlier ones. The executor returns the outcome, the number of attempts
  made and the pauses it took, in order.
\<close>

datatype transport_result = NetworkFailure | Response int string

datatype outcome = Success string | HTTPStatusError int string | NetworkError

record executor_config =
  retryCount :: nat
  retryDelay :: nat
  retryErrors :: "int list"

text \<open>
  Modelled from the spec: an attempt may be retried when "the transport reports a
  network-level transient failure, or the response status is in retryErrors".
\<close>

fun retryable :: "executor_config \<Rightarrow> transport_result \<Rightarrow> bool" where
  "retryable cfg NetworkFailure = True"
| "retryable cfg (Response status body) = (status \<in> set (retryErrors cfg))"

text \<open>
  Modelled from the spec: the outcome of the attempt that is not retried. "If status is
  non-2xx, fail with HTTPStatusError{status, body}; if network failure persists past the
  budget, fail with NetworkError. On 2xx, transition to Success".
\<close>

fun conclude :: "transport_result \<Rightarrow> outcome" where
  "conclude NetworkFailure = NetworkError"
| "conclude (Response status body) =
    (if 200 \<le> status \<and> status < 300 then Success body else HTTPStatusError status body)"

text \<open>
  Modelled from the spec: the retry loop. \<open>attempts\<close> counts the attempts made before this
  one, so after it "attempts-so-far" is \<open>Suc attempts\<close>; a retry is preceded by one pause of
  \<open>retryDelay\<close>.
\<close>

function execute ::
  "executor_config \<Rightarrow> (nat \<Rightarrow> transport_result) \<Rightarrow> nat \<Rightarrow> nat list \<Rightarrow> outcome \<times> nat \<times> nat list" where
  "execute cfg send attempts waits =
    (if retryable cfg (send attempts) \<and> Suc attempts \<le> retryCount cfg
     then execute cfg send (Suc attempts) (waits @ [retryDelay cfg])
     else (conclude (send attempts), Suc attempts, waits))"
  by pat_completeness auto
termination
  by (relation "measure (\<lambda>(cfg, send, attempts, waits). retryCount cfg - attempts)") auto

declare execute.simps [simp del]

text \<open>Modelled from the spec: one invocation starts with no attempt made and no pause taken.\<close>

definition http_execute ::
  "executor_config \<Rightarrow> (nat \<Rightarrow> transport_result) \<Rightarrow> outcome \<times> nat \<times> nat list" where
  "http_execute cfg send = execute cfg send 0 []"

text \<open>
  Modelled from the spec: the executor's configuration is the retry settings stored on the
  API object ("retry settings on the API object", spec 9); no \<^verbatim>\<open>retry_errors\<close> is the
  empty set.
\<close>

definition executor_of :: "api \<Rightarrow> executor_config" where
  "executor_of self =
    \<lparr>retryCount = nat (retry_count self), retryDelay = nat (retry_delay self),
     retryErrors = (case retry_errors self of None \<Rightarrow> [] | Some codes \<Rightarrow> codes)\<rparr>"

section \<open>The multipart/form-data wire format\<close>

text \<open>
  The format the packer's body is compared with, written from the format's own rules
  rather than from the code: every part is the delimiter line \<open>--boundary\<close>, the part's
  header lines, an empty line and the part's bytes, each ended by CRLF; the body closes with
  \<open>--boundary--\<close> and CRLF.
\<close>

record form_part =
  part_name :: string
  part_filename :: string
  part_content_type :: string
  part_data :: string

definition render_part :: "string \<Rightarrow> form_part \<Rightarrow> string" where
  "render_part boundary p =
    ''--'' @ boundary @ CRLF
    @ ''Content-Disposition: form-data; name='' @ dquote @ part_name p @ dquote
      @ ''; filename='' @ dquote @ part_filename p @ dquote @ CRLF
    @ ''Content-Type: '' @ part_content_type p @ CRLF
    @ CRLF
    @ part_data p @ CRLF"

definition multipart_form_data :: "string \<Rightarrow> form_part list \<Rightarrow> string" where
  "multipart_form_data boundary parts =
    concat (map (render_part boundary) parts) @ ''--'' @ boundary @ ''--'' @ CRLF"

text \<open>The file-system operations that query the size, and those that read.\<close>

fun is_getsize :: "fs_op \<Rightarrow> bool" where
  "is_getsize (Getsize name) = True"
| "is_getsize op = False"

fun is_read :: "fs_op \<Rightarrow> bool" where
  "is_read (Read name) = True"
| "is_read op = False"

section \<open>The size check\<close>

text \<open>
  C3. When the file's size in bytes exceeds \<open>max_size * 1024\<close>, \<^verbatim>\<open>_pack_image\<close> raises the
  "file is too big" \<^verbatim>\<open>TweepError\<close>, and the only file-system operation it has performed is
  the size query: the file is neither opened nor read. The witness is a file of 701 KB
  against a limit of 700 KB.
\<close>

theorem pack_image_too_large:
  "getsize fs filename = Some sz \<Longrightarrow> sz > max_size * 1024 \<Longrightarrow>
   pack_image fs types filename max_size =
     ([Getsize filename], Inl (TweepError ''File is too big, must be less than 700kb.''))"
  by (simp add: pack_image_def)

theorem pack_image_too_large_witness:
  "getsize (example_fs (701 * 1024)) ''avatar.png'' = Some (701 * 1024) \<and>
   (701 * 1024 :: int) > 700 * 1024 \<and>
   pack_image (example_fs (701 * 1024)) example_types ''avatar.png'' 700 =
     ([Getsize ''avatar.png''], Inl (TweepError ''File is too big, must be less than 700kb.''))"
proof -
  have a: "getsize (example_fs (701 * 1024)) ''avatar.png'' = Some (701 * 1024)"
    by (simp add: example_fs_def)
  have b: "(701 * 1024 :: int) > 700 * 1024" by simp
  from pack_image_too_large [OF a b, of example_types] a b show ?thesis by simp
qed

text \<open>
  C9. The comparison is strict: a file of exactly \<open>max_size * 1024\<close> bytes passes the size
  check. The outcome is never the "file is too big" error, and the packer goes on to the
  type check: with a supported type and a readable file the call returns headers and body.
\<close>

theorem pack_image_size_boundary:
  "getsize fs filename = Some (max_size * 1024) \<Longrightarrow>
   snd (pack_image fs types filename max_size)
     \<noteq> Inl (TweepError ''File is too big, must be less than 700kb.'') \<and>
   (fst (types filename) \<in> set [Some ''image/gif'', Some ''image/jpeg'', Some ''image/png'']
      \<longrightarrow> read_file fs filename \<noteq> None
      \<longrightarrow> (\<exists>headers body. snd (pack_image fs types filename max_size) = Inr (headers, body)))"
  by (auto simp add: pack_image_def guess_type_def Let_def simp del: list.set
        split: option.splits)

theorem pack_image_size_boundary_witness:
  "getsize (example_fs (700 * 1024)) ''avatar.png'' = Some (700 * 1024) \<and>
   snd (pack_image (example_fs (700 * 1024)) example_types ''avatar.png'' 700)
     \<noteq> Inl (TweepError ''File is too big, must be less than 700kb.'') \<and>
   (\<exists>headers body.
      snd (pack_image (example_fs (700 * 1024)) example_types ''avatar.png'' 700)
        = Inr (headers, body))"
proof -
  have a: "getsize (example_fs (700 * 1024)) ''avatar.png'' = Some (700 * 1024)"
    by (simp add: example_fs_def)
  have b: "fst (example_types ''avatar.png'')
             \<in> set [Some ''image/gif'', Some ''image/jpeg'', Some ''image/png'']"
    by (simp add: example_types_def)
  have c: "read_file (example_fs (700 * 1024)) ''avatar.png'' \<noteq> None"
    by (simp add: example_fs_def)
  from pack_image_size_boundary [OF a, of example_types] a b c show ?thesis by blast
qed

section \<open>The body and the headers\<close>

text \<open>
  C4. For a file that passes every check (size within the limit, a type among image/gif,
  image/jpeg and image/png, readable), \<^verbatim>\<open>_pack_image\<close> returns a body that is the
  multipart/form-data rendering, under the fixed boundary \<open>Tw3ePy\<close>, of exactly one part:
  the part is named "image", carries the file's bytes and has the detected type as its
  Content-Type. The headers are exactly Content-Type, naming that boundary, and
  Content-Length, the length of the body in bytes.
\<close>

theorem pack_image_builds_multipart:
  "getsize fs filename = Some sz \<Longrightarrow> sz \<le> max_size * 1024 \<Longrightarrow>
   types filename = (Some mime, enc) \<Longrightarrow>
   mime \<in> set [''image/gif'', ''image/jpeg'', ''image/png''] \<Longrightarrow>
   read_file fs filename = Some content \<Longrightarrow>
   BOUNDARY = ''Tw3ePy'' \<and>
   (\<exists>body.
      body = multipart_form_data BOUNDARY
               [\<lparr>part_name = ''image'', part_filename = filename,
                 part_content_type = mime, part_data = content\<rparr>] \<and>
      snd (pack_image fs types filename max_size) =
        Inr ([(''Content-Type'', PStr (''multipart/form-data; boundary='' @ BOUNDARY)),
              (''Content-Length'', PInt (int (length body)))],
             body))"
  by (auto simp add: pack_image_def guess_type_def Let_def multipart_form_data_def
        render_part_def BOUNDARY_def)

theorem pack_image_builds_multipart_witness:
  "snd (pack_image (example_fs 7) example_types ''avatar.png'' 700) =
     Inr ([(''Content-Type'', PStr ''multipart/form-data; boundary=Tw3ePy''),
           (''Content-Length'', PInt 127)],
          ''--Tw3ePy'' @ CRLF
          @ ''Content-Disposition: form-data; name='' @ dquote @ ''image'' @ dquote
            @ ''; filename='' @ dquote @ ''avatar.png'' @ dquote @ CRLF
          @ ''Content-Type: image/png'' @ CRLF
          @ CRLF
          @ ''PNGDATA'' @ CRLF
          @ ''--Tw3ePy--'' @ CRLF)"
proof -
  have a: "getsize (example_fs 7) ''avatar.png'' = Some 7"
    by (simp add: example_fs_def)
  have b: "(7::int) \<le> 700 * 1024" by simp
  have c: "example_types ''avatar.png'' = (Some ''image/png'', None)"
    by (simp add: example_types_def)
  have d: "''image/png'' \<in> set [''image/gif'', ''image/jpeg'', ''image/png'']" by simp
  have e: "read_file (example_fs 7) ''avatar.png'' = Some ''PNGDATA''"
    by (simp add: example_fs_def)
  from pack_image_builds_multipart
         [where fs = "example_fs 7" and types = example_types and max_size = 700, OF a b c d e]
  show ?thesis
    by (simp add: multipart_form_data_def render_part_def BOUNDARY_def CRLF_def dquote_def)
qed

section \<open>Validation comes before the read\<close>

text \<open>
  C5. On every path \<^verbatim>\<open>_pack_image\<close> performs one of three sequences of file-system
  operations on the named file: the size query alone; the size query and a failed open; or
  the size query followed by open, read and close. So there is at most one size query and
  at most one read, nothing else is touched, and the file is opened or read only after the
  size query succeeded with a size within the limit and the type was found among the
  supported ones. A call that ends in a \<^verbatim>\<open>TweepError\<close> has done the size query only.
\<close>

lemma pack_image_ops:
  "fst (pack_image fs types filename max_size) =
    (if (\<exists>sz. getsize fs filename = Some sz \<and> sz \<le> max_size * 1024) \<and>
        fst (types filename) \<in> set [Some ''image/gif'', Some ''image/jpeg'', Some ''image/png'']
     then (if read_file fs filename = None then [Getsize filename, Open filename]
           else [Getsize filename, Open filename, Read filename, Close filename])
     else [Getsize filename])"
  by (simp add: pack_image_def guess_type_def Let_def del: list.set split: option.splits)

lemma pack_image_TweepError_ops:
  "snd (pack_image fs types filename max_size) = Inl (TweepError reason) \<Longrightarrow>
   fst (pack_image fs types filename max_size) = [Getsize filename]"
  by (simp add: pack_image_def guess_type_def Let_def del: list.set
        split: option.splits if_splits)

theorem pack_image_validates_before_reading:
  "fst (pack_image fs types filename max_size)
     \<in> {[Getsize filename],
        [Getsize filename, Open filename],
        [Getsize filename, Open filename, Read filename, Close filename]} \<and>
   length (filter is_getsize (fst (pack_image fs types filename max_size))) \<le> 1 \<and>
   length (filter is_read (fst (pack_image fs types filename max_size))) \<le> 1 \<and>
   (Open filename \<in> set (fst (pack_image fs types filename max_size)) \<or>
    Read filename \<in> set (fst (pack_image fs types filename max_size)) \<longrightarrow>
      (\<exists>sz. getsize fs filename = Some sz \<and> sz \<le> max_size * 1024) \<and>
      fst (types filename) \<in> set [Some ''image/gif'', Some ''image/jpeg'', Some ''image/png'']) \<and>
   (\<forall>reason. snd (pack_image fs types filename max_size) = Inl (TweepError reason) \<longrightarrow>
      fst (pack_image fs types filename max_size) = [Getsize filename])"
proof -
  let ?ops = "fst (pack_image fs types filename max_size)"
  let ?valid = "(\<exists>sz. getsize fs filename = Some sz \<and> sz \<le> max_size * 1024) \<and>
      fst (types filename) \<in> set [Some ''image/gif'', Some ''image/jpeg'', Some ''image/png'']"
  have shape: "?ops \<in> {[Getsize filename], [Getsize filename, Open filename],
        [Getsize filename, Open filename, Read filename, Close filename]}"
    unfolding pack_image_ops by simp
  have one_stat: "length (filter is_getsize ?ops) \<le> 1"
    unfolding pack_image_ops by simp
  have one_read: "length (filter is_read ?ops) \<le> 1"
    unfolding pack_image_ops by simp
  have after: "Open filename \<in> set ?ops \<or> Read filename \<in> set ?ops \<longrightarrow> ?valid"
  proof (cases ?valid)
    case True
    then show ?thesis by blast
  next
    case False
    then have "?ops = [Getsize filename]"
      unfolding pack_image_ops by (simp del: list.set)
    then show ?thesis by simp
  qed
  have failed: "\<forall>reason. snd (pack_image fs types filename max_size) = Inl (TweepError reason)
      \<longrightarrow> ?ops = [Getsize filename]"
    using pack_image_TweepError_ops by blast
  from shape one_stat one_read after failed show ?thesis by blast
qed

theorem pack_image_validates_before_reading_witness:
  "fst (pack_image (example_fs 7) example_types ''avatar.png'' 700) =
     [Getsize ''avatar.png'', Open ''avatar.png'', Read ''avatar.png'', Close ''avatar.png''] \<and>
   (\<exists>sz. getsize (example_fs 7) ''avatar.png'' = Some sz \<and> sz \<le> 700 * 1024) \<and>
   fst (example_types ''avatar.png'')
     \<in> set [Some ''image/gif'', Some ''image/jpeg'', Some ''image/png'']"
proof -
  have ops: "fst (pack_image (example_fs 7) example_types ''avatar.png'' 700) =
     [Getsize ''avatar.png'', Open ''avatar.png'', Read ''avatar.png'', Close ''avatar.png'']"
    by (simp add: pack_image_def guess_type_def Let_def example_fs_def example_types_def)
  then have "Read ''avatar.png''
      \<in> set (fst (pack_image (example_fs 7) example_types ''avatar.png'' 700))"
    by simp
  with pack_image_validates_before_reading
         [of "example_fs 7" example_types "''avatar.png''" 700] ops
  show ?thesis by blast
qed

section \<open>The type check\<close>

text \<open>
  C2. A file name whose type the library cannot determine: \<^verbatim>\<open>guess_type\<close> returns the pair
  \<^verbatim>\<open>(None, None)\<close>, which is not \<^verbatim>\<open>None\<close>, so the test \<^verbatim>\<open>file_type is None\<close> fails and the
  "could not determine file type" error is not raised; the name falls through to the
  membership test and is rejected as an invalid type, with \<^verbatim>\<open>None\<close> printed as the type.
\<close>

theorem pack_image_unknown_type_reported_as_invalid:
  "example_types ''avatar'' = (None, None) \<and>
   pack_image (example_fs 7) example_types ''avatar'' 700 =
     ([Getsize ''avatar''], Inl (TweepError ''Invalid file type for image: None'')) \<and>
   snd (pack_image (example_fs 7) example_types ''avatar'' 700)
     \<noteq> Inl (TweepError ''Could not determine file type'')"
  by (simp add: pack_image_def guess_type_def Let_def example_fs_def example_types_def)

section \<open>Probes and propagation\<close>



section \<open>The owner of a list is the authenticated user\<close>

text \<open>
  C6. \<^verbatim>\<open>create_list\<close>, \<^verbatim>\<open>destroy_list\<close>, \<^verbatim>\<open>update_list\<close>, \<^verbatim>\<open>add_list_member\<close> and
  \<^verbatim>\<open>remove_list_member\<close> take no owner argument. Each builds its path at call time from
  the name that the API object's own auth handler returns from \<^verbatim>\<open>get_username()\<close> (and,
  for all but \<^verbatim>\<open>create_list\<close>, the list's slug); the caller's \<^verbatim>\<open>*args\<close> and \<^verbatim>\<open>**kargs\<close> are handed to the bound call
  untouched and do not enter the configuration. In the witness the caller supplies
  \<^verbatim>\<open>mallory\<close> both positionally and as \<^verbatim>\<open>owner=\<close>, and the path still names \<^verbatim>\<open>alice\<close>; with
  a handler that answers \<^verbatim>\<open>bob\<close> the path names \<^verbatim>\<open>bob\<close>.
\<close>

theorem list_methods_use_authenticated_username:
  "auth self = Some a \<Longrightarrow> get_username a = Inr username \<Longrightarrow>
   create_list bind_api self args kargs
     = bind_api (create_list_config username) self args kargs \<and>
   config_path (create_list_config username)
     = Some (PStr (''/'' @ username @ ''/lists.json'')) \<and>
   destroy_list bind_api self slug
     = bind_api (destroy_list_config username slug) self [] [] \<and>
   config_path (destroy_list_config username slug)
     = Some (PStr (''/'' @ username @ ''/lists/'' @ slug @ ''.json'')) \<and>
   update_list bind_api self slug args kargs
     = bind_api (update_list_config username slug) self args kargs \<and>
   config_path (update_list_config username slug)
     = Some (PStr (''/'' @ username @ ''/lists/'' @ slug @ ''.json'')) \<and>
   add_list_member bind_api self slug args kargs
     = bind_api (add_list_member_config username slug) self args kargs \<and>
   config_path (add_list_member_config username slug)
     = Some (PStr (''/'' @ username @ ''/'' @ slug @ ''/members.json'')) \<and>
   remove_list_member bind_api self slug args kargs
     = bind_api (remove_list_member_config username slug) self args kargs \<and>
   config_path (remove_list_member_config username slug)
     = Some (PStr (''/'' @ username @ ''/'' @ slug @ ''/members.json''))"
  by (simp add: auth_get_username_def create_list_def destroy_list_def update_list_def
        add_list_member_def remove_list_member_def config_path_def create_list_config_def
        destroy_list_config_def update_list_config_def add_list_member_config_def
        remove_list_member_config_def)

theorem list_methods_use_authenticated_username_witness:
  "auth example_api = Some \<lparr>get_username = Inr ''alice''\<rparr> \<and>
   create_list path_call example_api [PStr ''mallory''] [(''owner'', PStr ''mallory'')]
     = Inr (PStr ''/alice/lists.json'') \<and>
   destroy_list path_call example_api ''pets'' = Inr (PStr ''/alice/lists/pets.json'') \<and>
   update_list path_call example_api ''pets'' [PStr ''mallory''] [(''owner'', PStr ''mallory'')]
     = Inr (PStr ''/alice/lists/pets.json'') \<and>
   add_list_member path_call example_api ''pets'' [PStr ''mallory''] [(''owner'', PStr ''mallory'')]
     = Inr (PStr ''/alice/pets/members.json'') \<and>
   remove_list_member path_call example_api ''pets'' [PStr ''mallory'']
       [(''owner'', PStr ''mallory'')]
     = Inr (PStr ''/alice/pets/members.json'') \<and>
   create_list path_call (example_api\<lparr>auth := Some \<lparr>get_username = Inr ''bob''\<rparr>\<rparr>)
       [PStr ''mallory''] [(''owner'', PStr ''mallory'')]
     = Inr (PStr ''/bob/lists.json'')"
proof -
  have handler: "auth example_api = Some \<lparr>get_username = Inr ''alice''\<rparr>"
    by (simp add: example_api_def default_API_def)
  have name: "get_username \<lparr>get_username = Inr ''alice''\<rparr> = Inr ''alice''"
    by simp
  have handler': "auth (example_api\<lparr>auth := Some \<lparr>get_username = Inr ''bob''\<rparr>\<rparr>)
                    = Some \<lparr>get_username = Inr ''bob''\<rparr>"
    by simp
  have name': "get_username \<lparr>get_username = Inr ''bob''\<rparr> = Inr ''bob''"
    by simp
  from list_methods_use_authenticated_username
         [OF handler name, where bind_api = path_call and slug = "''pets''"
            and args = "[PStr ''mallory'']" and kargs = "[(''owner'', PStr ''mallory'')]"]
       list_methods_use_authenticated_username
         [OF handler' name', where bind_api = path_call and slug = "''pets''"
            and args = "[PStr ''mallory'']" and kargs = "[(''owner'', PStr ''mallory'')]"]
       handler
  show ?thesis by (simp add: path_call_def)
qed

section \<open>Batch lookup joins its identifier lists\<close>

text \<open>
  C7. \<^verbatim>\<open>lookup_users\<close> applies \<^verbatim>\<open>list_to_csv\<close> to \<^verbatim>\<open>user_ids\<close> and to \<^verbatim>\<open>screen_names\<close>
  before it calls the bound \<^verbatim>\<open>_lookup_users\<close>. The two results are passed in the order of
  the binding's \<^verbatim>\<open>allowed_param\<close>, \<^verbatim>\<open>user_id\<close> then \<^verbatim>\<open>screen_name\<close>, and no keyword argument
  is passed; no value the bound call receives is a sequence, and a sequence that was given
  arrives as one string, its items separated by commas.
\<close>

theorem lookup_users_joins_sequences:
  "lookup_users bind_api self user_ids screen_names
     = bind_api lookup_users_config self [list_to_csv user_ids, list_to_csv screen_names] [] \<and>
   map_of lookup_users_config ''allowed_param'' = Some (PList [PStr ''user_id'', PStr ''screen_name'']) \<and>
   (\<forall>v \<in> set (call_values [list_to_csv user_ids, list_to_csv screen_names] []).
      \<not> is_sequence v) \<and>
   (\<forall>ids. user_ids = Some ids \<longrightarrow>
      list_to_csv user_ids = PStr (join '','' (map str_ident ids))) \<and>
   (\<forall>names. screen_names = Some names \<longrightarrow>
      list_to_csv screen_names = PStr (join '','' (map str_ident names)))"
proof -
  have not_seq: "\<not> is_sequence (list_to_csv xs)" for xs
    by (cases xs) simp_all
  show ?thesis
    by (auto simp add: lookup_users_def call_values_def not_seq lookup_users_config_def)
qed

theorem lookup_users_joins_sequences_witness:
  "lookup_users echo_call example_api
     (Some [IdInt 12, IdInt 345]) (Some [IdStr ''alice'', IdStr ''bob''])
   = Inr (PDict [(''config'', PDict lookup_users_config),
                 (''args'', PList [PStr ''12,345'', PStr ''alice,bob'']),
                 (''kargs'', PDict [])])"
proof -
  have ids: "join '','' (map str_ident [IdInt 12, IdInt 345]) = ''12,345''"
    by (simp add: str_int_def str_nat.simps digit_char_def)
  have names: "join '','' (map str_ident [IdStr ''alice'', IdStr ''bob'']) = ''alice,bob''"
    by simp
  from lookup_users_joins_sequences
         [of echo_call example_api "Some [IdInt 12, IdInt 345]"
             "Some [IdStr ''alice'', IdStr ''bob'']"]
       ids names
  show ?thesis by (simp add: echo_call_def)
qed

section \<open>What the image uploads return\<close>

text \<open>
  C10. When packing and the bound call both succeed, \<^verbatim>\<open>update_profile_background_image\<close>
  returns \<^verbatim>\<open>None\<close> whatever the bound call returned, and \<^verbatim>\<open>update_profile_image\<close> returns
  what the bound call returned.
\<close>

theorem background_image_returns_None:
  "(snd (pack_image fs types filename 800) = Inr (headers, post_data) \<longrightarrow>
    bind_api update_profile_background_image_config self []
      [(''post_data'', PStr post_data), (''headers'', PDict headers)] = Inr result \<longrightarrow>
    snd (update_profile_background_image fs types bind_api self filename args kargs)
      = Inr PNone) \<and>
   (snd (pack_image fs types filename 700) = Inr (headers', post_data') \<longrightarrow>
    bind_api update_profile_image_config self []
      [(''post_data'', PStr post_data'), (''headers'', PDict headers')] = Inr result' \<longrightarrow>
    snd (update_profile_image fs types bind_api self filename) = Inr result')"
  by (simp add: update_profile_image_def update_profile_background_image_def
        split: prod.splits sum.splits)

theorem background_image_returns_None_witness:
  "snd (update_profile_background_image (example_fs 7) example_types
          (returning_call (PStr ''the user'')) example_api ''avatar.png'' [] [])
     = Inr PNone \<and>
   snd (update_profile_image (example_fs 7) example_types
          (returning_call (PStr ''the user'')) example_api ''avatar.png'')
     = Inr (PStr ''the user'')"
proof -
  obtain headers post_data where
    packed: "snd (pack_image (example_fs 7) example_types ''avatar.png'' 800)
               = Inr (headers, post_data)"
            "snd (pack_image (example_fs 7) example_types ''avatar.png'' 700)
               = Inr (headers, post_data)"
    by (simp add: pack_image_def guess_type_def Let_def example_fs_def example_types_def)
  from background_image_returns_None
         [where fs = "example_fs 7" and types = example_types and filename = "''avatar.png''"
            and bind_api = "returning_call (PStr ''the user'')" and self = example_api
            and headers = headers and post_data = post_data
            and headers' = headers and post_data' = post_data
            and result = "PStr ''the user''" and result' = "PStr ''the user''"
            and args = "[]" and kargs = "[]"]
       packed
  show ?thesis by (simp add: returning_call_def)
qed

section \<open>The retry bound\<close>

lemma execute_bounds:
  "execute cfg send attempts waits = (out, n, waits') \<Longrightarrow>
   attempts < n \<and> n \<le> max (Suc attempts) (Suc (retryCount cfg)) \<and>
   waits' = waits @ replicate (n - Suc attempts) (retryDelay cfg) \<and>
   out = conclude (send (n - 1))"
proof (induction cfg send attempts waits rule: execute.induct)
  case (1 cfg send attempts waits)
  show ?case
  proof (cases "retryable cfg (send attempts) \<and> Suc attempts \<le> retryCount cfg")
    case True
    with "1.prems"
    have "execute cfg send (Suc attempts) (waits @ [retryDelay cfg]) = (out, n, waits')"
      by (simp add: execute.simps [of cfg send attempts])
    from "1.IH" [OF True this]
    have lt: "Suc attempts < n"
      and le: "n \<le> max (Suc (Suc attempts)) (Suc (retryCount cfg))"
      and ws: "waits' = (waits @ [retryDelay cfg])
                 @ replicate (n - Suc (Suc attempts)) (retryDelay cfg)"
      and out: "out = conclude (send (n - 1))"
      by simp_all
    from lt have "n - Suc attempts = Suc (n - Suc (Suc attempts))" by arith
    with ws have "waits' = waits @ replicate (n - Suc attempts) (retryDelay cfg)" by simp
    moreover from le True have "n \<le> max (Suc attempts) (Suc (retryCount cfg))" by arith
    moreover from lt have "attempts < n" by arith
    ultimately show ?thesis using out by blast
  next
    case False
    with "1.prems" show ?thesis
      by (auto simp add: execute.simps [of cfg send attempts])
  qed
qed

text \<open>
  C8. An invocation of the executor makes at least one and at most \<open>retryCount + 1\<close>
  attempts; every pause between two attempts is \<open>retryDelay\<close>, so \<open>n\<close> attempts take
  \<open>n - 1\<close> equal pauses; the outcome is that of the last attempt. With \<open>retryCount = 0\<close>
  there is exactly one attempt and no pause, and the outcome of the first attempt is
  returned. The executor is a total function, so every invocation returns. The witness
  runs the default API object, whose \<^verbatim>\<open>retry_count\<close> is 0, against a transport that always
  fails.
\<close>

theorem http_execute_bounded_retries:
  "http_execute cfg send = (out, n, waits) \<Longrightarrow>
   1 \<le> n \<and> n \<le> retryCount cfg + 1 \<and>
   waits = replicate (n - 1) (retryDelay cfg) \<and>
   out = conclude (send (n - 1)) \<and>
   (retryCount cfg = 0 \<longrightarrow> n = 1 \<and> waits = [] \<and> out = conclude (send 0))"
  using execute_bounds [of cfg send 0 "[]" out n waits]
  by (auto simp add: http_execute_def)

theorem http_execute_bounded_retries_witness:
  "retry_count default_API = 0 \<and>
   http_execute (executor_of default_API) (\<lambda>k. NetworkFailure) = (NetworkError, 1, []) \<and>
   conclude NetworkFailure = NetworkError"
proof -
  have cfg: "retryCount (executor_of default_API) = 0" "retry_count default_API = 0"
    by (simp_all add: executor_of_def default_API_def)
  obtain out n waits where
    run: "http_execute (executor_of default_API) (\<lambda>k. NetworkFailure) = (out, n, waits)"
    by (cases "http_execute (executor_of default_API) (\<lambda>k. NetworkFailure)") blast
  from http_execute_bounded_retries [OF run] cfg run show ?thesis by simp
qed

text \<open>
  With two retries allowed, a transport that fails twice (once at the network level, once
  with a status in \<open>retryErrors\<close>) and then answers 200 is tried three times.
\<close>

lemma http_execute_three_attempts:
   "http_execute \<lparr>retryCount = 2, retryDelay = 5, retryErrors = [502]\<rparr>
      (\<lambda>k. if k = 0 then NetworkFailure else if k = 1 then Response 502 ''bad gateway''
            else Response 200 ''ok'')
     = (Success ''ok'', 3, [5, 5])"
  by (simp add: http_execute_def execute.simps)

end
